theory Spec2Isabelle
  imports Complex_Main
begin

section \<open>Two relationship services over a relational store\<close>

text \<open>
  The repository holds two request-handling modules: \<^verbatim>\<open>one_to_many.py\<close> (users owning
  orders) and \<^verbatim>\<open>one_to_one.py\<close> (users with at most one profile). Each handler opens a
  session, queries or changes the tables, commits, and returns a value or raises.

  A handler is embedded as a function from the database before the request to the pair of
  the database after it and the outcome: \<open>Inr v\<close> when the handler returns \<open>v\<close>,
  \<open>Inl e\<close> when it raises \<open>e\<close>. A table is the list of its rows in storage order.
  Changes reach the database at \<^verbatim>\<open>db.commit()\<close>; an exception raised before the commit
  leaves the database as it was.

  The embedding covers the body of each handler, with the library calls it makes (the
  queries, the commits, the constructor calls), and what the route's decorator declares
  for the value returned where that decides a result: \<^verbatim>\<open>create_order_for_user\<close> returns an
  entity to a route with \<^verbatim>\<open>response_model=OrderResponse\<close>, and \<^verbatim>\<open>read_users\<close> of
  \<^verbatim>\<open>one_to_many.py\<close> returns entities to a route with no response model.

  Names that both modules define carry the suffix \<open>_many\<close> or \<open>_one\<close>. Column
  selectors carry a short prefix of their class (\<open>um_\<close>, \<open>o_\<close>, \<open>uo_\<close>, \<open>p_\<close>).
  The second \<^verbatim>\<open>read_order\<close> of \<^verbatim>\<open>one_to_many.py\<close> (the route \<^verbatim>\<open>/orders\<close>) is
  \<open>read_order_list\<close>.
\<close>

subsection \<open>Exceptions\<close>

text \<open>
  \<open>HTTPException\<close> is the exception the handlers raise themselves, with its status code
  and detail. The others are raised by the libraries the handlers call:
  \<open>ValidationError\<close> by a response class built with a value its field type excludes,
  \<open>ResponseValidationError\<close> by a route whose response model does not accept the value
  the handler returned, \<open>AttributeError\<close> by an attribute access on \<^verbatim>\<open>None\<close>,
  \<open>IntegrityError\<close> by a commit that breaks a constraint of the schema,
  \<open>OverflowError\<close> by the database driver when it is given an integer that does not fit
  64 bits. All but \<open>HTTPException\<close> reach the client as a server error.
\<close>

datatype error =
    HTTPException nat string
  | ValidationError
  | ResponseValidationError
  | AttributeError
  | IntegrityError
  | OverflowError

subsection \<open>Storage primitives\<close>

text \<open>
  An integer primary key that the insert leaves out is assigned by the store: one more
  than the largest key of the table, and 1 on an empty table.
\<close>

fun next_id :: "int list \<Rightarrow> int" where
  "next_id [] = 1"
| "next_id (x # xs) = fold max xs x + 1"

text \<open>
  The driver passes an integer to the store as a signed 64-bit value, and raises
  \<open>OverflowError\<close> for one outside that range.
\<close>

definition int64 :: "int \<Rightarrow> bool" where
  "int64 k = (- (2 ^ 63) \<le> k \<and> k < 2 ^ 63)"

text \<open>
  \<^verbatim>\<open>query(...).filter(column == k).first()\<close> for a request integer \<open>k\<close>: the first row
  in storage order that matches, \<^verbatim>\<open>None\<close> when no row matches, and the driver's
  \<open>OverflowError\<close> when \<open>k\<close> does not fit 64 bits. A table of the store holds 64-bit
  integers only, so no row of it matches a \<open>k\<close> outside the range; the tables of the model
  are lists over all integers, and a row that does match is found.
\<close>

definition first_where :: "('a \<Rightarrow> bool) \<Rightarrow> 'a list \<Rightarrow> int \<Rightarrow> error + 'a option" where
  "first_where P rows k =
     (case find P rows of
        Some r \<Rightarrow> Inr (Some r)
      | None \<Rightarrow> if int64 k then Inr None else Inl OverflowError)"

text \<open>
  \<^verbatim>\<open>query(...).all()\<close> yields the list of rows, which may be empty; it is a list and never
  \<^verbatim>\<open>None\<close>. The option type keeps the test \<^verbatim>\<open>is None\<close> that two handlers apply to it.
\<close>

definition all_rows :: "'a list \<Rightarrow> 'a list option" where
  "all_rows t = Some t"

text \<open>Decimal rendering of an integer inside an f-string.\<close>

fun str_nat :: "nat \<Rightarrow> string" where
  "str_nat n =
     (if n < 10 then [''0123456789'' ! n]
      else str_nat (n div 10) @ [''0123456789'' ! (n mod 10)])"

declare str_nat.simps [simp del]

definition str_int :: "int \<Rightarrow> string" where
  "str_int i = (if i < 0 then CHR ''-'' # str_nat (nat (- i)) else str_nat (nat i))"

subsection \<open>one\_to\_many.py: tables and schemas\<close>

text \<open>
  The \<^verbatim>\<open>price: float\<close> of a request body: a number, or the not-a-number that the parser
  of the body accepts. A stored price is a number. No handler computes with a price; the
  model leaves the infinities out.
\<close>

datatype pyfloat = Finite real | NaN

record User_many =
  um_id :: int
  um_username :: string
  um_email :: string

record Order =
  o_id :: int
  o_product_name :: string
  o_quantity :: int
  o_price :: real
  o_user_id :: int

record store_many =
  users_many :: "User_many list"
  orders :: "Order list"

record OrderCreate =
  oc_product_name :: string
  oc_quantity :: int
  oc_price :: pyfloat

text \<open>
  The six keys of the dictionary that \<^verbatim>\<open>read_order\<close> builds, which are also the
  attributes of an order after \<^verbatim>\<open>i.username = i.user.username\<close>.
\<close>

record OrderResponse =
  or_id :: int
  or_product_name :: string
  or_quantity :: int
  or_price :: real
  or_user_id :: int
  or_username :: string

text \<open>\<^verbatim>\<open>db.query(User).filter(User.id == user_id).first()\<close>\<close>

definition query_user_many :: "store_many \<Rightarrow> int \<Rightarrow> error + User_many option" where
  "query_user_many s user_id = first_where (\<lambda>u. um_id u = user_id) (users_many s) user_id"

text \<open>\<^verbatim>\<open>db.query(Order).filter(Order.id == order_id).first()\<close>\<close>

definition query_order :: "store_many \<Rightarrow> int \<Rightarrow> error + Order option" where
  "query_order s order_id = first_where (\<lambda>r. o_id r = order_id) (orders s) order_id"

text \<open>
  The relationship \<^verbatim>\<open>User.orders\<close>: the orders whose \<^verbatim>\<open>user_id\<close> is the user's key.
  The relationship \<^verbatim>\<open>Order.user\<close>: the user with the key \<^verbatim>\<open>user_id\<close>, or \<^verbatim>\<open>None\<close>.
  Both load by a key that is stored, so neither meets the driver's range check.
\<close>

definition User_orders :: "store_many \<Rightarrow> User_many \<Rightarrow> Order list" where
  "User_orders s u = filter (\<lambda>r. o_user_id r = um_id u) (orders s)"

definition Order_user :: "store_many \<Rightarrow> Order \<Rightarrow> User_many option" where
  "Order_user s ord = find (\<lambda>u. um_id u = o_user_id ord) (users_many s)"

subsection \<open>one\_to\_many.py: handlers\<close>

text \<open>
  \<^verbatim>\<open>create_user\<close>: \<^verbatim>\<open>username\<close> and \<^verbatim>\<open>email\<close> are unique columns, so the commit of a
  row that repeats one of them raises. The handler returns the new user, whose order list
  is empty.
\<close>

definition create_user_many ::
  "store_many \<Rightarrow> string \<Rightarrow> string \<Rightarrow> store_many \<times> (error + User_many \<times> Order list)" where
  "create_user_many s username email =
     (if username \<in> set (map um_username (users_many s))
         \<or> email \<in> set (map um_email (users_many s))
      then (s, Inl IntegrityError)
      else
        (let db_user = \<lparr>um_id = next_id (map um_id (users_many s)),
                         um_username = username, um_email = email\<rparr>;
             s' = s\<lparr>users_many := users_many s @ [db_user]\<rparr>
         in (s', Inr (db_user, User_orders s' db_user))))"

text \<open>
  \<^verbatim>\<open>delete_user\<close>: the relationship \<^verbatim>\<open>orders\<close> has \<^verbatim>\<open>cascade="all, delete-orphan"\<close>, so
  \<^verbatim>\<open>db.delete(user)\<close> loads the user's orders and deletes each by its key, then deletes
  the user by its key. The dictionary returned has the one key \<^verbatim>\<open>detail\<close>; the model
  returns its value.
\<close>

definition delete_user_many :: "store_many \<Rightarrow> int \<Rightarrow> store_many \<times> (error + string)" where
  "delete_user_many s user_id =
     (case query_user_many s user_id of
        Inl e \<Rightarrow> (s, Inl e)
      | Inr None \<Rightarrow> (s, Inl (HTTPException 404 ''User not found''))
      | Inr (Some user) \<Rightarrow>
          (let cascade = map o_id (User_orders s user)
           in (s\<lparr>users_many := filter (\<lambda>u. um_id u \<noteq> um_id user) (users_many s),
                  orders := filter (\<lambda>r. o_id r \<notin> set cascade) (orders s)\<rparr>,
               Inr (''User with ID '' @ str_int user_id
                      @ '' has been deleted successfully''))))"

text \<open>
  What a route with \<^verbatim>\<open>response_model=OrderResponse\<close> makes of an order entity that
  the handler returns: it reads the six fields of \<^verbatim>\<open>OrderResponse\<close> as attributes of
  the entity. Five are columns. \<^verbatim>\<open>username: str\<close> is required and is no column of
  \<^verbatim>\<open>Order\<close>: the entity has it only when a handler has assigned it, which is the second
  argument. Without it the response is refused.
\<close>

definition OrderResponse_from_orm :: "Order \<Rightarrow> string option \<Rightarrow> error + OrderResponse" where
  "OrderResponse_from_orm ord username =
     (case username of
        None \<Rightarrow> Inl ResponseValidationError
      | Some n \<Rightarrow>
          Inr \<lparr>or_id = o_id ord, or_product_name = o_product_name ord,
               or_quantity = o_quantity ord, or_price = o_price ord,
               or_user_id = o_user_id ord, or_username = n\<rparr>)"

text \<open>
  \<^verbatim>\<open>create_order_for_user\<close>. The commit binds \<^verbatim>\<open>quantity\<close> and \<^verbatim>\<open>user_id\<close> as
  64-bit integers, so the driver raises when one does not fit; the store takes a
  not-a-number \<^verbatim>\<open>price\<close> for null, which the column \<^verbatim>\<open>price\<close> (not nullable) refuses.
  Either way no row is written. After the commit the handler returns \<^verbatim>\<open>db_order\<close>, to
  which it has assigned no \<^verbatim>\<open>username\<close>, to a route with
  \<^verbatim>\<open>response_model=OrderResponse\<close>.
\<close>

definition create_order_for_user ::
  "store_many \<Rightarrow> int \<Rightarrow> OrderCreate \<Rightarrow> store_many \<times> (error + OrderResponse)" where
  "create_order_for_user s user_id order =
     (case query_user_many s user_id of
        Inl e \<Rightarrow> (s, Inl e)
      | Inr None \<Rightarrow> (s, Inl (HTTPException 404 ''User not found''))
      | Inr (Some user) \<Rightarrow>
          if int64 (oc_quantity order) \<and> int64 user_id then
            (case oc_price order of
               NaN \<Rightarrow> (s, Inl IntegrityError)
             | Finite price \<Rightarrow>
                 (let db_order = \<lparr>o_id = next_id (map o_id (orders s)),
                                  o_product_name = oc_product_name order,
                                  o_quantity = oc_quantity order,
                                  o_price = price,
                                  o_user_id = user_id\<rparr>
                  in (s\<lparr>orders := orders s @ [db_order]\<rparr>,
                      OrderResponse_from_orm db_order None)))
          else (s, Inl OverflowError))"

text \<open>
  Copying \<^verbatim>\<open>order.user.username\<close> beside the columns of an order. When \<^verbatim>\<open>order.user\<close>
  is \<^verbatim>\<open>None\<close> the attribute access raises.
\<close>

definition with_username :: "store_many \<Rightarrow> Order \<Rightarrow> error + OrderResponse" where
  "with_username s ord =
     (case Order_user s ord of
        None \<Rightarrow> Inl AttributeError
      | Some u \<Rightarrow>
          Inr \<lparr>or_id = o_id ord, or_product_name = o_product_name ord,
               or_quantity = o_quantity ord, or_price = o_price ord,
               or_user_id = o_user_id ord, or_username = um_username u\<rparr>)"

definition read_order :: "store_many \<Rightarrow> int \<Rightarrow> store_many \<times> (error + OrderResponse)" where
  "read_order s order_id =
     (case query_order s order_id of
        Inl e \<Rightarrow> (s, Inl e)
      | Inr None \<Rightarrow> (s, Inl (HTTPException 404 ''Order not found''))
      | Inr (Some ord) \<Rightarrow> (s, with_username s ord))"

text \<open>
  The loop \<^verbatim>\<open>for i in order: i.username = i.user.username\<close>, in storage order; it stops
  at the first order whose user is missing.
\<close>

fun attach_usernames :: "store_many \<Rightarrow> Order list \<Rightarrow> error + OrderResponse list" where
  "attach_usernames s [] = Inr []"
| "attach_usernames s (i # rest) =
     (case with_username s i of
        Inl e \<Rightarrow> Inl e
      | Inr r \<Rightarrow>
          (case attach_usernames s rest of
             Inl e \<Rightarrow> Inl e
           | Inr rs \<Rightarrow> Inr (r # rs)))"

definition read_order_list :: "store_many \<Rightarrow> store_many \<times> (error + OrderResponse list)" where
  "read_order_list s =
     (case all_rows (orders s) of
        None \<Rightarrow> (s, Inl (HTTPException 404 ''Order not found''))
      | Some order \<Rightarrow> (s, attach_usernames s order))"

text \<open>
  \<^verbatim>\<open>read_users\<close> returns the entities that \<^verbatim>\<open>db.query(User).all()\<close> loads, to a route
  whose \<^verbatim>\<open>response_model\<close> is commented out. The query loads the three columns of each
  user; the relationship \<^verbatim>\<open>orders\<close> loads on access, and neither the handler nor a
  response model reads it. The response is the list of the entities as the framework
  encodes them: for each, the object of its loaded attributes.
\<close>

datatype json = JInt int | JStr string

definition encode_User :: "User_many \<Rightarrow> (string \<times> json) list" where
  "encode_User u =
     [(''id'', JInt (um_id u)),
      (''username'', JStr (um_username u)),
      (''email'', JStr (um_email u))]"

definition read_users_many ::
  "store_many \<Rightarrow> store_many \<times> (error + (string \<times> json) list list)" where
  "read_users_many s = (s, Inr (map encode_User (users_many s)))"

subsection \<open>one\_to\_one.py: tables and schemas\<close>

text \<open>
  \<^verbatim>\<open>Profile.bio\<close> and \<^verbatim>\<open>Profile.user_id\<close> are nullable columns; \<^verbatim>\<open>user_id\<close> is
  unique among the rows where it is not null.
\<close>

record User_one =
  uo_id :: int
  uo_name :: string

record Profile =
  p_id :: int
  p_bio :: "string option"
  p_user_id :: "int option"

record store_one =
  users_one :: "User_one list"
  profiles :: "Profile list"

record UserCreate =
  uc_name :: string
  uc_bio :: string

record ProfileCreate =
  pc_bio :: string
  pc_user_id :: int

record UserResponse =
  ur_id :: int
  ur_name :: string
  ur_bio :: string
  ur_company :: string

text \<open>
  The constructor call \<^verbatim>\<open>UserResponse(id=..., name=..., bio=...)\<close>. The field is declared
  \<^verbatim>\<open>bio: str\<close>, with no default and not optional, so the validating constructor raises
  when it is given \<^verbatim>\<open>None\<close>. \<^verbatim>\<open>company\<close> is never passed and takes its default.
\<close>

definition UserResponse_init :: "int \<Rightarrow> string \<Rightarrow> string option \<Rightarrow> error + UserResponse" where
  "UserResponse_init i n b =
     (case b of
        None \<Rightarrow> Inl ValidationError
      | Some bio \<Rightarrow> Inr \<lparr>ur_id = i, ur_name = n, ur_bio = bio, ur_company = ''Bharat Pvt''\<rparr>)"

text \<open>\<^verbatim>\<open>db.query(User).filter(User.id == user_id).first()\<close>\<close>

definition query_user_one :: "store_one \<Rightarrow> int \<Rightarrow> error + User_one option" where
  "query_user_one s user_id = first_where (\<lambda>u. uo_id u = user_id) (users_one s) user_id"

text \<open>\<^verbatim>\<open>db.query(Profile).filter(Profile.user_id == user_id).first()\<close>\<close>

definition query_profile_of :: "store_one \<Rightarrow> int \<Rightarrow> error + Profile option" where
  "query_profile_of s user_id =
     first_where (\<lambda>p. p_user_id p = Some user_id) (profiles s) user_id"

text \<open>
  The relationship \<^verbatim>\<open>User.profile\<close> (\<^verbatim>\<open>uselist=False\<close>): one profile or \<^verbatim>\<open>None\<close>. It
  loads by the user's stored key.
\<close>

definition User_profile :: "store_one \<Rightarrow> User_one \<Rightarrow> Profile option" where
  "User_profile s u = find (\<lambda>p. p_user_id p = Some (uo_id u)) (profiles s)"

text \<open>
  \<^verbatim>\<open>db.add(Profile(bio=..., user_id=...)); db.commit(); db.refresh(...)\<close>. The commit
  raises when another row already holds the same \<^verbatim>\<open>user_id\<close>.
\<close>

definition add_profile :: "store_one \<Rightarrow> string \<Rightarrow> int \<Rightarrow> error + store_one \<times> Profile" where
  "add_profile s bio user_id =
     (if Some user_id \<in> set (map p_user_id (profiles s)) then Inl IntegrityError
      else
        (let db_profile = \<lparr>p_id = next_id (map p_id (profiles s)),
                            p_bio = Some bio, p_user_id = Some user_id\<rparr>
         in Inr (s\<lparr>profiles := profiles s @ [db_profile]\<rparr>, db_profile)))"

subsection \<open>one\_to\_one.py: handlers\<close>

text \<open>
  \<^verbatim>\<open>create_user\<close> commits twice: the user first, then the profile. When the second
  commit raises, the user of the first stays.
\<close>

definition create_user_one :: "store_one \<Rightarrow> UserCreate \<Rightarrow> store_one \<times> (error + UserResponse)" where
  "create_user_one s user =
     (let db_user = \<lparr>uo_id = next_id (map uo_id (users_one s)), uo_name = uc_name user\<rparr>;
          s1 = s\<lparr>users_one := users_one s @ [db_user]\<rparr>
      in case add_profile s1 (uc_bio user) (uo_id db_user) of
           Inl e \<Rightarrow> (s1, Inl e)
         | Inr (s2, db_profile) \<Rightarrow>
             (s2, UserResponse_init (uo_id db_user) (uo_name db_user) (p_bio db_profile)))"

text \<open>
  The list comprehension of \<^verbatim>\<open>read_users\<close>, in storage order:
  \<^verbatim>\<open>bio=user.profile.bio if user.profile else None\<close>. The first constructor call that
  raises ends it.
\<close>

fun user_responses :: "store_one \<Rightarrow> User_one list \<Rightarrow> error + UserResponse list" where
  "user_responses s [] = Inr []"
| "user_responses s (user # rest) =
     (case UserResponse_init (uo_id user) (uo_name user)
             (case User_profile s user of None \<Rightarrow> None | Some p \<Rightarrow> p_bio p) of
        Inl e \<Rightarrow> Inl e
      | Inr r \<Rightarrow>
          (case user_responses s rest of
             Inl e \<Rightarrow> Inl e
           | Inr rs \<Rightarrow> Inr (r # rs)))"

definition read_users_one :: "store_one \<Rightarrow> store_one \<times> (error + UserResponse list)" where
  "read_users_one s = (s, user_responses s (users_one s))"

definition read_user_one :: "store_one \<Rightarrow> int \<Rightarrow> store_one \<times> (error + UserResponse)" where
  "read_user_one s user_id =
     (case query_user_one s user_id of
        Inl e \<Rightarrow> (s, Inl e)
      | Inr None \<Rightarrow> (s, Inl (HTTPException 404 ''User not found''))
      | Inr (Some user) \<Rightarrow>
          (case User_profile s user of
             Some p \<Rightarrow> (s, UserResponse_init (uo_id user) (uo_name user) (p_bio p))
           | None \<Rightarrow> (s, Inl (HTTPException 404 ''Profile not found''))))"

text \<open>
  \<^verbatim>\<open>update_user\<close> assigns to \<^verbatim>\<open>user.name\<close> and \<^verbatim>\<open>profile.bio\<close> without testing either
  query result; an assignment to an attribute of \<^verbatim>\<open>None\<close> raises, before the commit. The
  commit writes each changed row by its key. Both queries bind the request's
  \<^verbatim>\<open>user_id\<close>.
\<close>

definition update_user :: "store_one \<Rightarrow> int \<Rightarrow> UserCreate \<Rightarrow> store_one \<times> (error + UserResponse)" where
  "update_user s user_id payload =
     (case query_user_one s user_id of
        Inl e \<Rightarrow> (s, Inl e)
      | Inr None \<Rightarrow> (s, Inl AttributeError)
      | Inr (Some user) \<Rightarrow>
          (case query_profile_of s user_id of
             Inl e \<Rightarrow> (s, Inl e)
           | Inr None \<Rightarrow> (s, Inl AttributeError)
           | Inr (Some profile) \<Rightarrow>
               (s\<lparr>users_one :=
                     map (\<lambda>u. if uo_id u = uo_id user then u\<lparr>uo_name := uc_name payload\<rparr> else u)
                       (users_one s),
                   profiles :=
                     map (\<lambda>p. if p_id p = p_id profile then p\<lparr>p_bio := Some (uc_bio payload)\<rparr> else p)
                       (profiles s)\<rparr>,
                UserResponse_init (uo_id user) (uc_name payload) (Some (uc_bio payload)))))"

text \<open>
  \<^verbatim>\<open>delete_user\<close>: the relationship \<^verbatim>\<open>profile\<close> declares no delete cascade. For such a
  relationship the session's default on \<^verbatim>\<open>db.delete(user)\<close> is to load the related
  profile and, at the commit, to de-associate it from the user by setting its foreign key
  to null (\<^verbatim>\<open>UPDATE profiles SET user_id=NULL WHERE profiles.id = ?\<close>); the profile row is
  kept. Then the user row is deleted by its key. \<^verbatim>\<open>user_id\<close> is a nullable column, so
  the update goes through. The dictionary returned has the one key \<^verbatim>\<open>message\<close>; the
  model returns its value.
\<close>

definition delete_user_one :: "store_one \<Rightarrow> int \<Rightarrow> store_one \<times> (error + string)" where
  "delete_user_one s user_id =
     (case query_user_one s user_id of
        Inl e \<Rightarrow> (s, Inl e)
      | Inr None \<Rightarrow> (s, Inl (HTTPException 404 ''User not found''))
      | Inr (Some user) \<Rightarrow>
          (s\<lparr>users_one := filter (\<lambda>u. uo_id u \<noteq> uo_id user) (users_one s),
              profiles :=
                (case User_profile s user of
                   None \<Rightarrow> profiles s
                 | Some profile \<Rightarrow>
                     map (\<lambda>p. if p_id p = p_id profile then p\<lparr>p_user_id := None\<rparr> else p)
                       (profiles s))\<rparr>,
           Inr ''User has been deleted''))"

definition create_profile :: "store_one \<Rightarrow> ProfileCreate \<Rightarrow> store_one \<times> (error + Profile)" where
  "create_profile s profile =
     (case query_user_one s (pc_user_id profile) of
        Inl e \<Rightarrow> (s, Inl e)
      | Inr None \<Rightarrow> (s, Inl (HTTPException 404 ''User not found''))
      | Inr (Some user) \<Rightarrow>
          (case add_profile s (pc_bio profile) (pc_user_id profile) of
             Inl e \<Rightarrow> (s, Inl e)
           | Inr (s', db_profile) \<Rightarrow> (s', Inr db_profile)))"

definition read_all_profile :: "store_one \<Rightarrow> store_one \<times> (error + Profile list)" where
  "read_all_profile s =
     (case all_rows (profiles s) of
        None \<Rightarrow> (s, Inl (HTTPException 404 ''Profile not found''))
      | Some profile \<Rightarrow> (s, Inr profile))"

subsection \<open>Constraints of the schema, and sample databases\<close>

text \<open>
  What the handlers of \<^verbatim>\<open>one_to_many.py\<close> keep true of the order table: every order
  names a stored user.
\<close>

definition orders_reference_users :: "store_many \<Rightarrow> bool" where
  "orders_reference_users s =
     (\<forall>r\<in>set (orders s). o_user_id r \<in> set (map um_id (users_many s)))"

text \<open>
  What the handlers of \<^verbatim>\<open>one_to_one.py\<close> keep true of the profile table: a profile
  whose \<^verbatim>\<open>user_id\<close> is not null names a stored user.
\<close>

definition profiles_reference_users :: "store_one \<Rightarrow> bool" where
  "profiles_reference_users s =
     (\<forall>p\<in>set (profiles s).
        case p_user_id p of None \<Rightarrow> True | Some i \<Rightarrow> i \<in> set (map uo_id (users_one s)))"

text \<open>
  The declared constraints of table \<^verbatim>\<open>profiles\<close>: the primary key \<^verbatim>\<open>id\<close>, and
  \<^verbatim>\<open>user_id\<close> unique among the rows where it is not null.
\<close>

definition profile_constraints :: "store_one \<Rightarrow> bool" where
  "profile_constraints s =
     (distinct (map p_id (profiles s))
      \<and> distinct (filter (\<lambda>v. v \<noteq> None) (map p_user_id (profiles s))))"

definition empty_many :: store_many where
  "empty_many = \<lparr>users_many = [], orders = []\<rparr>"

definition empty_one :: store_one where
  "empty_one = \<lparr>users_one = [], profiles = []\<rparr>"

definition shop :: store_many where
  "shop =
     \<lparr>users_many =
        [\<lparr>um_id = 1, um_username = ''alice'', um_email = ''a@x.com''\<rparr>,
         \<lparr>um_id = 2, um_username = ''carol'', um_email = ''c@x.com''\<rparr>],
      orders =
        [\<lparr>o_id = 1, o_product_name = ''Book'', o_quantity = 2, o_price = 999 / 100, o_user_id = 1\<rparr>,
         \<lparr>o_id = 2, o_product_name = ''Pen'', o_quantity = 5, o_price = 3 / 2, o_user_id = 2\<rparr>,
         \<lparr>o_id = 3, o_product_name = ''Lamp'', o_quantity = 1, o_price = 20, o_user_id = 1\<rparr>]\<rparr>"

definition book :: OrderCreate where
  "book = \<lparr>oc_product_name = ''Book'', oc_quantity = 2, oc_price = Finite (999 / 100)\<rparr>"

definition bob :: UserCreate where
  "bob = \<lparr>uc_name = ''bob'', uc_bio = ''hi''\<rparr>"

definition one_bob :: store_one where
  "one_bob =
     \<lparr>users_one = [\<lparr>uo_id = 1, uo_name = ''bob''\<rparr>],
      profiles = [\<lparr>p_id = 1, p_bio = Some ''hi'', p_user_id = Some 1\<rparr>]\<rparr>"

definition bob_without_profile :: store_one where
  "bob_without_profile = \<lparr>users_one = [\<lparr>uo_id = 1, uo_name = ''bob''\<rparr>], profiles = []\<rparr>"

subsection \<open>Databases that the handlers produce\<close>

text \<open>
  The databases that requests to the writing handlers produce from the empty one. The
  reading handlers leave the database as it is.
\<close>

inductive reachable_many :: "store_many \<Rightarrow> bool" where
  start_many: "reachable_many empty_many"
| after_create_user_many:
    "reachable_many s \<Longrightarrow> reachable_many (fst (create_user_many s username email))"
| after_delete_user_many:
    "reachable_many s \<Longrightarrow> reachable_many (fst (delete_user_many s user_id))"
| after_create_order:
    "reachable_many s \<Longrightarrow> reachable_many (fst (create_order_for_user s user_id payload))"

inductive reachable_one :: "store_one \<Rightarrow> bool" where
  start_one: "reachable_one empty_one"
| after_create_user_one:
    "reachable_one s \<Longrightarrow> reachable_one (fst (create_user_one s user))"
| after_update_user:
    "reachable_one s \<Longrightarrow> reachable_one (fst (update_user s user_id payload))"
| after_delete_user_one:
    "reachable_one s \<Longrightarrow> reachable_one (fst (delete_user_one s user_id))"
| after_create_profile:
    "reachable_one s \<Longrightarrow> reachable_one (fst (create_profile s profile))"

section \<open>Properties\<close>

subsection \<open>Keys and queries\<close>

text \<open>A key that the store assigns is larger than every key of the table, so it is new.\<close>

lemma fold_max_ge_init: "(a::int) \<le> fold max xs a"
proof (induction xs arbitrary: a)
  case Nil
  show ?case by simp
next
  case (Cons x xs)
  have "a \<le> max x a" by simp
  also have "max x a \<le> fold max xs (max x a)" by (rule Cons.IH)
  finally show ?case by simp
qed

lemma fold_max_ge_elem: "y \<in> set xs \<Longrightarrow> (y::int) \<le> fold max xs a"
proof (induction xs arbitrary: a)
  case Nil
  then show ?case by simp
next
  case (Cons x xs)
  show ?case
  proof (cases "y = x")
    case True
    have "y \<le> max x a" using True by simp
    also have "max x a \<le> fold max xs (max x a)" by (rule fold_max_ge_init)
    finally show ?thesis by simp
  next
    case False
    with Cons.prems have "y \<in> set xs" by simp
    then show ?thesis using Cons.IH by simp
  qed
qed

lemma next_id_above: "y \<in> set ids \<Longrightarrow> y < next_id ids"
proof (cases ids)
  case Nil
  assume "y \<in> set ids"
  with Nil show ?thesis by simp
next
  case (Cons x xs)
  assume "y \<in> set ids"
  with Cons have "y = x \<or> y \<in> set xs" by simp
  then have "y \<le> fold max xs x"
    using fold_max_ge_init [of x xs] fold_max_ge_elem [of y xs x] by blast
  with Cons show ?thesis by simp
qed

lemma next_id_fresh: "next_id ids \<notin> set ids"
  using next_id_above [of "next_id ids" ids] by blast

text \<open>What \<^verbatim>\<open>.first()\<close> finds, and how an insert changes it.\<close>

lemma find_key: "find P xs = Some x \<Longrightarrow> P x \<and> x \<in> set xs"
  by (induction xs) (auto split: if_splits)


lemma find_present: "x \<in> set xs \<Longrightarrow> P x \<Longrightarrow> \<exists>y. find P xs = Some y"
  by (cases "find P xs") (auto simp: find_None_iff)

text \<open>
  The three outcomes of a query by a request key: a row, no row, or the driver's refusal
  of a key that does not fit 64 bits. On a table whose keys all fit, the refusal comes for
  exactly the keys that do not.
\<close>

lemma first_where_found: "find P rows = Some r \<Longrightarrow> first_where P rows k = Inr (Some r)"
  by (simp add: first_where_def)

lemma first_where_missing:
  "find P rows = None \<Longrightarrow>
   first_where P rows k = (if int64 k then Inr None else Inl OverflowError)"
  by (simp add: first_where_def)

lemma first_where_range_first:
  assumes "\<forall>r\<in>set rows. P r \<longrightarrow> int64 k"
  shows "first_where P rows k = (if int64 k then Inr (find P rows) else Inl OverflowError)"
proof (cases "find P rows")
  case None
  then show ?thesis by (simp add: first_where_def)
next
  case (Some r)
  with assms have "int64 k" using find_key by fastforce
  with Some show ?thesis by (simp add: first_where_def)
qed

lemma first_where_Some: "first_where P rows k = Inr (Some r) \<Longrightarrow> P r \<and> r \<in> set rows"
  by (cases "find P rows") (auto simp: first_where_def dest: find_key split: if_splits)

lemma int64_edge: "int64 9223372036854775807 \<and> \<not> int64 9223372036854775808"
  by (simp add: int64_def)

lemma query_user_many_present:
  assumes "uid \<in> set (map um_id (users_many s))"
  shows "\<exists>u. query_user_many s uid = Inr (Some u) \<and> um_id u = uid"
proof -
  from assms obtain x where "x \<in> set (users_many s)" and "um_id x = uid" by auto
  then obtain u where u: "find (\<lambda>u. um_id u = uid) (users_many s) = Some u"
    using find_present [of x "users_many s" "\<lambda>u. um_id u = uid"] by blast
  then have "um_id u = uid" using find_key by fastforce
  with u show ?thesis by (simp add: query_user_many_def first_where_found)
qed

lemma query_user_many_absent:
  assumes "uid \<notin> set (map um_id (users_many s))"
  shows "query_user_many s uid = (if int64 uid then Inr None else Inl OverflowError)"
proof -
  from assms have "find (\<lambda>u. um_id u = uid) (users_many s) = None"
    by (auto simp: find_None_iff)
  then show ?thesis unfolding query_user_many_def by (rule first_where_missing)
qed

lemma query_user_many_key: "query_user_many s uid = Inr (Some u) \<Longrightarrow> um_id u = uid"
  using first_where_Some [of "\<lambda>u. um_id u = uid" "users_many s" uid u]
  by (simp add: query_user_many_def)

lemma query_order_absent:
  assumes "oid \<notin> set (map o_id (orders s))"
  shows "query_order s oid = (if int64 oid then Inr None else Inl OverflowError)"
proof -
  from assms have "find (\<lambda>r. o_id r = oid) (orders s) = None"
    by (auto simp: find_None_iff)
  then show ?thesis unfolding query_order_def by (rule first_where_missing)
qed


subsection \<open>one\_to\_many.py\<close>

text \<open>
  C1, as amended. When no user has the id, \<open>delete_user_many\<close> leaves the database as it
  was and raises the 404 \<open>User not found\<close> if the id fits 64 bits, and the driver's
  \<open>OverflowError\<close> if it does not. When a user has the id, the handler returns its
  confirmation; no user with the id is left; the orders deleted are those that share a key
  with an order of that user, which under the primary key of the order table are exactly
  the orders whose \<open>user_id\<close> was the id; and \<open>read_order\<close> on the id of such an order
  raises the 404 \<open>Order not found\<close>.
\<close>

theorem delete_user_many_cascade:
  "(uid \<notin> set (map um_id (users_many s)) \<and> int64 uid \<longrightarrow>
      delete_user_many s uid = (s, Inl (HTTPException 404 ''User not found'')))
   \<and> (uid \<notin> set (map um_id (users_many s)) \<and> \<not> int64 uid \<longrightarrow>
      delete_user_many s uid = (s, Inl OverflowError))
   \<and> (uid \<in> set (map um_id (users_many s)) \<longrightarrow>
      (\<exists>s'. delete_user_many s uid =
               (s', Inr (''User with ID '' @ str_int uid @ '' has been deleted successfully''))
         \<and> users_many s' = filter (\<lambda>u. um_id u \<noteq> uid) (users_many s)
         \<and> orders s' =
             filter (\<lambda>r. o_id r \<notin> set (map o_id (filter (\<lambda>x. o_user_id x = uid) (orders s))))
               (orders s)
         \<and> (distinct (map o_id (orders s)) \<longrightarrow>
               orders s' = filter (\<lambda>r. o_user_id r \<noteq> uid) (orders s))
         \<and> (\<forall>r\<in>set (orders s). o_user_id r = uid \<longrightarrow>
               o_id r \<notin> set (map o_id (orders s'))
               \<and> (int64 (o_id r) \<longrightarrow>
                    read_order s' (o_id r) = (s', Inl (HTTPException 404 ''Order not found''))))))"
proof (intro conjI impI)
  assume "uid \<notin> set (map um_id (users_many s)) \<and> int64 uid"
  then show "delete_user_many s uid = (s, Inl (HTTPException 404 ''User not found''))"
    by (simp add: delete_user_many_def query_user_many_absent)
next
  assume "uid \<notin> set (map um_id (users_many s)) \<and> \<not> int64 uid"
  then show "delete_user_many s uid = (s, Inl OverflowError)"
    by (simp add: delete_user_many_def query_user_many_absent)
next
  assume "uid \<in> set (map um_id (users_many s))"
  then obtain user where user: "query_user_many s uid = Inr (Some user)"
    and key: "um_id user = uid"
    using query_user_many_present by blast
  define s' where "s' = fst (delete_user_many s uid)"
  let ?cascade = "set (map o_id (filter (\<lambda>x. o_user_id x = uid) (orders s)))"
  have users': "users_many s' = filter (\<lambda>u. um_id u \<noteq> uid) (users_many s)"
    using user key by (simp add: s'_def delete_user_many_def Let_def)
  have orders': "orders s' = filter (\<lambda>r. o_id r \<notin> ?cascade) (orders s)"
    using user key by (simp add: s'_def delete_user_many_def Let_def User_orders_def)
  have res: "delete_user_many s uid =
      (s', Inr (''User with ID '' @ str_int uid @ '' has been deleted successfully''))"
    using user by (simp add: s'_def delete_user_many_def Let_def)
  have exact: "distinct (map o_id (orders s)) \<longrightarrow>
      orders s' = filter (\<lambda>r. o_user_id r \<noteq> uid) (orders s)"
  proof
    assume "distinct (map o_id (orders s))"
    then have inj: "inj_on o_id (set (orders s))" by (simp add: distinct_map)
    have "\<forall>r\<in>set (orders s). (o_id r \<notin> ?cascade) = (o_user_id r \<noteq> uid)"
    proof
      fix r
      assume r: "r \<in> set (orders s)"
      show "(o_id r \<notin> ?cascade) = (o_user_id r \<noteq> uid)"
      proof
        assume "o_id r \<notin> ?cascade"
        with r show "o_user_id r \<noteq> uid" by force
      next
        assume other: "o_user_id r \<noteq> uid"
        show "o_id r \<notin> ?cascade"
        proof
          assume "o_id r \<in> ?cascade"
          then obtain x where x: "x \<in> set (orders s)" "o_user_id x = uid" "o_id x = o_id r"
            by auto
          with inj r have "x = r" by (meson inj_onD)
          with x other show False by simp
        qed
      qed
    qed
    then have "filter (\<lambda>r. o_id r \<notin> ?cascade) (orders s)
        = filter (\<lambda>r. o_user_id r \<noteq> uid) (orders s)"
      by (intro filter_cong) simp_all
    with orders' show "orders s' = filter (\<lambda>r. o_user_id r \<noteq> uid) (orders s)" by simp
  qed
  have cascade: "\<forall>r\<in>set (orders s). o_user_id r = uid \<longrightarrow>
      o_id r \<notin> set (map o_id (orders s'))
      \<and> (int64 (o_id r) \<longrightarrow>
           read_order s' (o_id r) = (s', Inl (HTTPException 404 ''Order not found'')))"
  proof (intro ballI impI)
    fix r
    assume r: "r \<in> set (orders s)" and owner: "o_user_id r = uid"
    then have doomed: "o_id r \<in> ?cascade" by force
    then have gone: "o_id r \<notin> set (map o_id (orders s'))"
      by (auto simp: orders')
    then have "int64 (o_id r) \<longrightarrow>
        read_order s' (o_id r) = (s', Inl (HTTPException 404 ''Order not found''))"
      by (simp add: read_order_def query_order_absent)
    with gone show "o_id r \<notin> set (map o_id (orders s'))
      \<and> (int64 (o_id r) \<longrightarrow>
           read_order s' (o_id r) = (s', Inl (HTTPException 404 ''Order not found'')))"
      by simp
  qed
  from res users' orders' exact cascade
  show "\<exists>s'. delete_user_many s uid =
               (s', Inr (''User with ID '' @ str_int uid @ '' has been deleted successfully''))
         \<and> users_many s' = filter (\<lambda>u. um_id u \<noteq> uid) (users_many s)
         \<and> orders s' =
             filter (\<lambda>r. o_id r \<notin> set (map o_id (filter (\<lambda>x. o_user_id x = uid) (orders s))))
               (orders s)
         \<and> (distinct (map o_id (orders s)) \<longrightarrow>
               orders s' = filter (\<lambda>r. o_user_id r \<noteq> uid) (orders s))
         \<and> (\<forall>r\<in>set (orders s). o_user_id r = uid \<longrightarrow>
               o_id r \<notin> set (map o_id (orders s'))
               \<and> (int64 (o_id r) \<longrightarrow>
                    read_order s' (o_id r) = (s', Inl (HTTPException 404 ''Order not found''))))"
    by blast
qed

theorem delete_user_many_cascade_witness:
  "7 \<notin> set (map um_id (users_many shop)) \<and> int64 7
   \<and> delete_user_many shop 7 = (shop, Inl (HTTPException 404 ''User not found''))
   \<and> 1 \<in> set (map um_id (users_many shop))
   \<and> distinct (map o_id (orders shop))
   \<and> orders (fst (delete_user_many shop 1)) =
       [\<lparr>o_id = 2, o_product_name = ''Pen'', o_quantity = 5, o_price = 3 / 2,
         o_user_id = 2\<rparr>]
   \<and> read_order (fst (delete_user_many shop 1)) 3 =
       (fst (delete_user_many shop 1), Inl (HTTPException 404 ''Order not found''))"
proof -
  let ?lamp = "\<lparr>o_id = 3, o_product_name = ''Lamp'', o_quantity = 1, o_price = 20,
                 o_user_id = 1\<rparr>"
  have absent: "7 \<notin> set (map um_id (users_many shop)) \<and> int64 7"
    by (simp add: shop_def int64_def)
  have present: "1 \<in> set (map um_id (users_many shop))"
    by (simp add: shop_def)
  have keys: "distinct (map o_id (orders shop))"
    by (simp add: shop_def)
  have lamp: "?lamp \<in> set (orders shop)" "o_user_id ?lamp = 1" "o_id ?lamp = 3" "int64 (o_id ?lamp)"
    by (simp_all add: shop_def int64_def)
  from delete_user_many_cascade [of 7 shop] absent
  have refused: "delete_user_many shop 7 = (shop, Inl (HTTPException 404 ''User not found''))"
    by blast
  from delete_user_many_cascade [of 1 shop] present keys obtain s' where
    del: "delete_user_many shop 1 =
            (s', Inr (''User with ID '' @ str_int 1 @ '' has been deleted successfully''))"
    and rest: "orders s' = filter (\<lambda>r. o_user_id r \<noteq> 1) (orders shop)"
    and cascade: "\<forall>r\<in>set (orders shop). o_user_id r = 1 \<longrightarrow>
           o_id r \<notin> set (map o_id (orders s'))
           \<and> (int64 (o_id r) \<longrightarrow>
                read_order s' (o_id r) = (s', Inl (HTTPException 404 ''Order not found'')))"
    by blast
  from cascade lamp have "read_order s' 3 = (s', Inl (HTTPException 404 ''Order not found''))"
    by fastforce
  moreover from rest have "orders s' =
       [\<lparr>o_id = 2, o_product_name = ''Pen'', o_quantity = 5, o_price = 3 / 2,
         o_user_id = 2\<rparr>]"
    by (simp add: shop_def)
  ultimately show ?thesis using absent present keys refused del by simp
qed

text \<open>
  An id that names no user is not always answered with the 404: for the id \<open>2^63\<close> the
  query itself raises.
\<close>

theorem delete_user_many_overflow:
  "9223372036854775808 \<notin> set (map um_id (users_many shop))
   \<and> delete_user_many shop 9223372036854775808 = (shop, Inl OverflowError)
   \<and> delete_user_many shop 9223372036854775808
       \<noteq> (shop, Inl (HTTPException 404 ''User not found''))"
  by (simp add: delete_user_many_def query_user_many_def first_where_def shop_def int64_def)


text \<open>
  What \<open>create_order_for_user\<close> does, case by case. Without a user of the id it leaves
  the database as it was. With one, and a payload that the store accepts, it commits
  exactly one new row and then raises: the entity it returns has no \<open>username\<close>, which
  the route's response model requires. So the handler never answers with an order.
\<close>

lemma create_order_for_user_absent:
  assumes "uid \<notin> set (map um_id (users_many s))"
  shows "create_order_for_user s uid payload =
     (s, Inl (if int64 uid then HTTPException 404 ''User not found'' else OverflowError))"
  using query_user_many_absent [OF assms] by (simp add: create_order_for_user_def)

lemma create_order_for_user_commits:
  assumes "uid \<in> set (map um_id (users_many s))" and "int64 uid"
    and "int64 (oc_quantity payload)" and "oc_price payload = Finite price"
  shows "create_order_for_user s uid payload =
     (s\<lparr>orders := orders s
          @ [\<lparr>o_id = next_id (map o_id (orders s)),
              o_product_name = oc_product_name payload,
              o_quantity = oc_quantity payload,
              o_price = price,
              o_user_id = uid\<rparr>]\<rparr>,
      Inl ResponseValidationError)"
proof -
  from assms(1) obtain user where "query_user_many s uid = Inr (Some user)"
    using query_user_many_present by blast
  with assms(2-4) show ?thesis
    by (simp add: create_order_for_user_def OrderResponse_from_orm_def Let_def)
qed

lemma create_order_for_user_refused_payload:
  assumes "uid \<in> set (map um_id (users_many s))"
    and "\<not> int64 (oc_quantity payload) \<or> oc_price payload = NaN"
  shows "\<exists>e. create_order_for_user s uid payload = (s, Inl e)"
proof -
  from assms(1) obtain user where "query_user_many s uid = Inr (Some user)"
    using query_user_many_present by blast
  with assms(2) show ?thesis
    by (auto simp: create_order_for_user_def)
qed

lemma create_order_for_user_never_returns:
  "snd (create_order_for_user s uid payload) \<noteq> Inr r"
  by (auto simp: create_order_for_user_def OrderResponse_from_orm_def Let_def
           split: sum.splits option.splits pyfloat.splits)

text \<open>
  C2. In the database \<open>shop\<close>, a request for the id 9, which names no user, raises the
  404 \<open>User not found\<close> and leaves the database as it was. A request for the stored
  user 2 with the payload \<open>book\<close> commits the order row 4 with \<open>user_id\<close> 2, and then
  does not return it: the response is refused. A payload whose quantity is \<open>2^63\<close>, or
  whose price is not-a-number, is refused at the commit and no row is written.
\<close>

theorem create_order_for_user_response_refused:
  "create_order_for_user shop 9 book = (shop, Inl (HTTPException 404 ''User not found''))
   \<and> create_order_for_user shop 2 book =
       (shop\<lparr>orders := orders shop
          @ [\<lparr>o_id = 4, o_product_name = ''Book'', o_quantity = 2,
              o_price = 999 / 100, o_user_id = 2\<rparr>]\<rparr>,
        Inl ResponseValidationError)
   \<and> create_order_for_user shop 2 (book\<lparr>oc_quantity := 9223372036854775808\<rparr>)
       = (shop, Inl OverflowError)
   \<and> create_order_for_user shop 2 (book\<lparr>oc_price := NaN\<rparr>) = (shop, Inl IntegrityError)"
  by (simp add: create_order_for_user_def OrderResponse_from_orm_def query_user_many_def
                first_where_def shop_def book_def int64_def Let_def)

text \<open>
  The constraint \<open>orders_reference_users\<close> holds of the empty database and every handler
  that writes keeps it; the cascade of \<open>delete_user_many\<close> is what keeps it on a delete.
\<close>

lemma orders_reference_users_empty: "orders_reference_users empty_many"
  by (simp add: orders_reference_users_def empty_many_def)

lemma create_user_many_keeps_references:
  "orders_reference_users s \<Longrightarrow> orders_reference_users (fst (create_user_many s n e))"
  by (auto simp: orders_reference_users_def create_user_many_def Let_def)

lemma create_order_for_user_keeps_references:
  assumes "orders_reference_users s"
  shows "orders_reference_users (fst (create_order_for_user s uid payload))"
proof (cases "query_user_many s uid")
  case (Inl e)
  with assms show ?thesis by (simp add: create_order_for_user_def)
next
  case (Inr found)
  show ?thesis
  proof (cases found)
    case None
    with Inr assms show ?thesis by (simp add: create_order_for_user_def)
  next
    case (Some user)
    with Inr have "uid \<in> um_id ` set (users_many s)"
      using first_where_Some [of "\<lambda>u. um_id u = uid" "users_many s" uid user]
      by (auto simp: query_user_many_def)
    with assms Inr Some show ?thesis
      by (auto simp: orders_reference_users_def create_order_for_user_def Let_def
               split: pyfloat.splits)
  qed
qed

lemma delete_user_many_keeps_references:
  assumes "orders_reference_users s"
  shows "orders_reference_users (fst (delete_user_many s uid))"
proof (cases "uid \<in> set (map um_id (users_many s))")
  case False
  with assms show ?thesis
    by (simp add: delete_user_many_def query_user_many_absent)
next
  case True
  then obtain user where user: "query_user_many s uid = Inr (Some user)"
    and key: "um_id user = uid"
    using query_user_many_present by blast
  show ?thesis
    unfolding orders_reference_users_def
  proof
    fix r
    assume "r \<in> set (orders (fst (delete_user_many s uid)))"
    with user key have r: "r \<in> set (orders s)"
      and kept: "o_id r \<notin> o_id ` {x \<in> set (orders s). o_user_id x = uid}"
      by (auto simp: delete_user_many_def Let_def User_orders_def)
    from r kept have other: "o_user_id r \<noteq> uid" by blast
    from assms r have "o_user_id r \<in> um_id ` set (users_many s)"
      by (simp add: orders_reference_users_def)
    with other user key
    show "o_user_id r \<in> set (map um_id (users_many (fst (delete_user_many s uid))))"
      by (auto simp: delete_user_many_def Let_def)
  qed
qed

lemma reachable_many_references: "reachable_many s \<Longrightarrow> orders_reference_users s"
proof (induction rule: reachable_many.induct)
  case start_many
  show ?case by (rule orders_reference_users_empty)
next
  case (after_create_user_many s username email)
  then show ?case by (simp add: create_user_many_keeps_references)
next
  case (after_delete_user_many s user_id)
  then show ?case by (simp add: delete_user_many_keeps_references)
next
  case (after_create_order s user_id payload)
  then show ?case by (simp add: create_order_for_user_keeps_references)
qed




lemma attach_usernames_error: "attach_usernames s os = Inl e \<Longrightarrow> e = AttributeError"
  by (induction os arbitrary: e)
     (auto simp: with_username_def split: option.splits sum.splits)






text \<open>
  C9, as amended. \<open>read_users_many\<close> answers with one object for each stored user, in
  storage order. The object holds the user's \<open>id\<close>, \<open>username\<close> and \<open>email\<close> and
  nothing else: it has no \<open>orders\<close>.
\<close>

theorem read_users_many_rows:
  "\<exists>objs. read_users_many s = (s, Inr objs)
      \<and> length objs = length (users_many s)
      \<and> (\<forall>k<length objs.
            map fst (objs ! k) = [''id'', ''username'', ''email'']
            \<and> map_of (objs ! k) ''id'' = Some (JInt (um_id (users_many s ! k)))
            \<and> map_of (objs ! k) ''username'' = Some (JStr (um_username (users_many s ! k)))
            \<and> map_of (objs ! k) ''email'' = Some (JStr (um_email (users_many s ! k)))
            \<and> map_of (objs ! k) ''orders'' = None)"
proof -
  let ?objs = "map encode_User (users_many s)"
  have "read_users_many s = (s, Inr ?objs)"
    by (simp add: read_users_many_def)
  moreover have "length ?objs = length (users_many s)" by simp
  moreover have "\<forall>k<length ?objs.
            map fst (?objs ! k) = [''id'', ''username'', ''email'']
            \<and> map_of (?objs ! k) ''id'' = Some (JInt (um_id (users_many s ! k)))
            \<and> map_of (?objs ! k) ''username'' = Some (JStr (um_username (users_many s ! k)))
            \<and> map_of (?objs ! k) ''email'' = Some (JStr (um_email (users_many s ! k)))
            \<and> map_of (?objs ! k) ''orders'' = None"
    by (simp add: encode_User_def)
  ultimately show ?thesis by blast
qed

theorem read_users_many_rows_witness:
  "read_users_many shop =
     (shop,
      Inr [[(''id'', JInt 1), (''username'', JStr ''alice''), (''email'', JStr ''a@x.com'')],
           [(''id'', JInt 2), (''username'', JStr ''carol''), (''email'', JStr ''c@x.com'')]])"
proof -
  from read_users_many_rows [of shop] obtain objs where
    res: "read_users_many shop = (shop, Inr objs)"
    and len: "length objs = length (users_many shop)"
    by blast
  have "snd (read_users_many shop) =
      Inr [[(''id'', JInt 1), (''username'', JStr ''alice''), (''email'', JStr ''a@x.com'')],
           [(''id'', JInt 2), (''username'', JStr ''carol''), (''email'', JStr ''c@x.com'')]]"
    by (simp add: read_users_many_def encode_User_def shop_def)
  with res show ?thesis by simp
qed

text \<open>
  The users of \<open>shop\<close> own orders, and the answer of \<open>read_users_many\<close> holds none of
  them: the first user, \<open>alice\<close>, owns the orders 1 and 3, and her object has no
  \<open>orders\<close>.
\<close>

theorem read_users_many_without_orders:
  "map o_id (User_orders shop \<lparr>um_id = 1, um_username = ''alice'', um_email = ''a@x.com''\<rparr>)
     = [1, 3]
   \<and> hd (projr (snd (read_users_many shop))) =
       [(''id'', JInt 1), (''username'', JStr ''alice''), (''email'', JStr ''a@x.com'')]
   \<and> map_of (hd (projr (snd (read_users_many shop)))) ''orders'' = None"
  by (simp add: read_users_many_def encode_User_def User_orders_def shop_def)


subsection \<open>one\_to\_one.py\<close>

text \<open>What the two queries by a request key find.\<close>

lemma query_user_one_key:
  "query_user_one s uid = Inr (Some u) \<Longrightarrow> uo_id u = uid \<and> u \<in> set (users_one s)"
  using first_where_Some [of "\<lambda>u. uo_id u = uid" "users_one s" uid u]
  by (simp add: query_user_one_def)

lemma query_user_one_present:
  assumes "uid \<in> set (map uo_id (users_one s))"
  shows "\<exists>u. query_user_one s uid = Inr (Some u) \<and> uo_id u = uid"
proof -
  from assms obtain x where "x \<in> set (users_one s)" and "uo_id x = uid" by auto
  then obtain u where u: "find (\<lambda>u. uo_id u = uid) (users_one s) = Some u"
    using find_present [of x "users_one s" "\<lambda>u. uo_id u = uid"] by blast
  then have "uo_id u = uid" using find_key by fastforce
  with u show ?thesis by (simp add: query_user_one_def first_where_found)
qed

lemma query_user_one_absent:
  assumes "uid \<notin> set (map uo_id (users_one s))"
  shows "query_user_one s uid = (if int64 uid then Inr None else Inl OverflowError)"
proof -
  from assms have "find (\<lambda>u. uo_id u = uid) (users_one s) = None"
    by (auto simp: find_None_iff)
  then show ?thesis unfolding query_user_one_def by (rule first_where_missing)
qed

lemma query_profile_of_present:
  assumes "Some uid \<in> set (map p_user_id (profiles s))"
  shows "\<exists>p. query_profile_of s uid = Inr (Some p) \<and> p_user_id p = Some uid
      \<and> find (\<lambda>p. p_user_id p = Some uid) (profiles s) = Some p"
proof -
  from assms obtain x where "x \<in> set (profiles s)" and "p_user_id x = Some uid" by auto
  then obtain p where p: "find (\<lambda>p. p_user_id p = Some uid) (profiles s) = Some p"
    using find_present [of x "profiles s" "\<lambda>p. p_user_id p = Some uid"] by blast
  then have "p_user_id p = Some uid" using find_key by fastforce
  with p show ?thesis by (simp add: query_profile_of_def first_where_found)
qed

lemma query_profile_of_absent:
  assumes "Some uid \<notin> set (map p_user_id (profiles s))"
  shows "query_profile_of s uid = (if int64 uid then Inr None else Inl OverflowError)"
proof -
  from assms have "find (\<lambda>p. p_user_id p = Some uid) (profiles s) = None"
    by (auto simp: find_None_iff image_iff)
  then show ?thesis unfolding query_profile_of_def by (rule first_where_missing)
qed

text \<open>
  A profile never names a user that is not stored yet, so the key the store assigns to a
  new user is free in the profile table and the second commit of \<open>create_user_one\<close>
  goes through.
\<close>

lemma new_user_unreferenced:
  assumes "profiles_reference_users s"
  shows "Some (next_id (map uo_id (users_one s))) \<notin> set (map p_user_id (profiles s))"
proof
  assume "Some (next_id (map uo_id (users_one s))) \<in> set (map p_user_id (profiles s))"
  then obtain p where "p \<in> set (profiles s)"
    and "p_user_id p = Some (next_id (map uo_id (users_one s)))" by auto
  with assms have "next_id (map uo_id (users_one s)) \<in> set (map uo_id (users_one s))"
    by (auto simp: profiles_reference_users_def split: option.splits)
  then show False using next_id_fresh by blast
qed

lemma create_user_one_result:
  assumes "profiles_reference_users s"
  shows "create_user_one s user =
    (s\<lparr>users_one := users_one s
          @ [\<lparr>uo_id = next_id (map uo_id (users_one s)), uo_name = uc_name user\<rparr>],
       profiles := profiles s
          @ [\<lparr>p_id = next_id (map p_id (profiles s)), p_bio = Some (uc_bio user),
              p_user_id = Some (next_id (map uo_id (users_one s)))\<rparr>]\<rparr>,
     Inr \<lparr>ur_id = next_id (map uo_id (users_one s)), ur_name = uc_name user,
          ur_bio = uc_bio user, ur_company = ''Bharat Pvt''\<rparr>)"
  using new_user_unreferenced [OF assms]
  by (simp add: create_user_one_def add_profile_def UserResponse_init_def Let_def)

lemma UserResponse_company:
  "UserResponse_init i n b = Inr r \<Longrightarrow> ur_company r = ''Bharat Pvt''"
  by (cases b) (auto simp: UserResponse_init_def)






text \<open>
  The only exception of the list comprehension is the constructor's. A user with no
  profile makes \<open>read_user_one\<close> raise its second 404 and makes \<open>read_users_one\<close>
  raise: the constructor is given \<^verbatim>\<open>None\<close> for the field \<^verbatim>\<open>bio: str\<close>.
\<close>

lemma user_responses_error: "user_responses s us = Inl e \<Longrightarrow> e = ValidationError"
  by (induction us arbitrary: e)
     (auto simp: UserResponse_init_def split: option.splits sum.splits)

lemma user_responses_missing_profile:
  "u \<in> set us \<Longrightarrow> User_profile s u = None \<Longrightarrow> user_responses s us = Inl ValidationError"
proof (induction us)
  case Nil
  then show ?case by simp
next
  case (Cons user rest)
  show ?case
  proof (cases "u = user")
    case True
    with Cons.prems show ?thesis by (simp add: UserResponse_init_def)
  next
    case False
    with Cons have rest: "user_responses s rest = Inl ValidationError" by simp
    show ?thesis
    proof (cases "UserResponse_init (uo_id user) (uo_name user)
             (case User_profile s user of None \<Rightarrow> None | Some p \<Rightarrow> p_bio p)")
      case (Inl e)
      then have "e = ValidationError"
        by (auto simp: UserResponse_init_def split: option.splits)
      with Inl show ?thesis by simp
    next
      case (Inr r)
      with rest show ?thesis by simp
    qed
  qed
qed

lemma read_user_one_missing_profile:
  "query_user_one s uid = Inr (Some u) \<Longrightarrow> User_profile s u = None \<Longrightarrow>
   read_user_one s uid = (s, Inl (HTTPException 404 ''Profile not found''))"
  by (simp add: read_user_one_def)

lemma read_users_one_missing_profile:
  "u \<in> set (users_one s) \<Longrightarrow> User_profile s u = None \<Longrightarrow>
   read_users_one s = (s, Inl ValidationError)"
  by (simp add: read_users_one_def user_responses_missing_profile)

text \<open>
  C3. The database \<open>bob_without_profile\<close> holds one user and no profile row. On it
  \<open>read_user_one\<close> raises the 404 \<open>Profile not found\<close> for that user (and the other
  404, \<open>User not found\<close>, for an id that is absent). \<open>read_users_one\<close> on the same
  database does not return a list with that user and an absent bio: it raises
  \<open>ValidationError\<close>.
\<close>

theorem read_users_one_raises_without_profile:
  "query_user_one bob_without_profile 1 = Inr (Some \<lparr>uo_id = 1, uo_name = ''bob''\<rparr>)
   \<and> User_profile bob_without_profile \<lparr>uo_id = 1, uo_name = ''bob''\<rparr> = None
   \<and> read_user_one bob_without_profile 1 =
       (bob_without_profile, Inl (HTTPException 404 ''Profile not found''))
   \<and> read_user_one bob_without_profile 2 =
       (bob_without_profile, Inl (HTTPException 404 ''User not found''))
   \<and> read_users_one bob_without_profile = (bob_without_profile, Inl ValidationError)"
  by (simp add: bob_without_profile_def query_user_one_def first_where_def User_profile_def
                read_user_one_def read_users_one_def UserResponse_init_def int64_def)

text \<open>
  C5, as amended. For an id that fits 64 bits, when the user row or the profile row with
  that user id is missing, \<open>update_user\<close> raises \<open>AttributeError\<close> and leaves the
  database as it was. For an id that does not fit and names no user, the first query
  raises the driver's \<open>OverflowError\<close> before any attribute is touched. No input makes
  the handler raise an \<open>HTTPException\<close>: it has no check of either query result.
\<close>

theorem update_user_unguarded:
  "(int64 uid \<and> (uid \<notin> set (map uo_id (users_one s))
                  \<or> Some uid \<notin> set (map p_user_id (profiles s))) \<longrightarrow>
      update_user s uid payload = (s, Inl AttributeError))
   \<and> (\<not> int64 uid \<and> uid \<notin> set (map uo_id (users_one s)) \<longrightarrow>
      update_user s uid payload = (s, Inl OverflowError))
   \<and> (\<forall>c d. snd (update_user s uid payload) \<noteq> Inl (HTTPException c d))"
proof (intro conjI impI allI)
  assume a: "int64 uid \<and> (uid \<notin> set (map uo_id (users_one s))
                  \<or> Some uid \<notin> set (map p_user_id (profiles s)))"
  show "update_user s uid payload = (s, Inl AttributeError)"
  proof (cases "uid \<in> set (map uo_id (users_one s))")
    case False
    with a show ?thesis by (simp add: update_user_def query_user_one_absent)
  next
    case True
    then obtain user where "query_user_one s uid = Inr (Some user)"
      using query_user_one_present by blast
    moreover from a True have "query_profile_of s uid = Inr None"
      by (simp add: query_profile_of_absent)
    ultimately show ?thesis by (simp add: update_user_def)
  qed
next
  assume "\<not> int64 uid \<and> uid \<notin> set (map uo_id (users_one s))"
  then show "update_user s uid payload = (s, Inl OverflowError)"
    by (simp add: update_user_def query_user_one_absent)
next
  fix c d
  have user: "query_user_one s uid \<noteq> Inl (HTTPException c d)"
    by (auto simp: query_user_one_def first_where_def split: option.splits)
  have profile: "query_profile_of s uid \<noteq> Inl (HTTPException c d)"
    by (auto simp: query_profile_of_def first_where_def split: option.splits)
  show "snd (update_user s uid payload) \<noteq> Inl (HTTPException c d)"
  proof (cases "query_user_one s uid")
    case (Inl e)
    with user show ?thesis by (auto simp: update_user_def)
  next
    case found: (Inr found)
    show ?thesis
    proof (cases found)
      case None
      with found show ?thesis by (simp add: update_user_def)
    next
      case (Some u)
      show ?thesis
      proof (cases "query_profile_of s uid")
        case (Inl e)
        with profile found Some show ?thesis by (auto simp: update_user_def)
      next
        case (Inr p)
        with found Some show ?thesis
          by (cases p) (simp_all add: update_user_def UserResponse_init_def)
      qed
    qed
  qed
qed

theorem update_user_unguarded_witness:
  "int64 5 \<and> 5 \<notin> set (map uo_id (users_one one_bob))
   \<and> update_user one_bob 5 bob = (one_bob, Inl AttributeError)
   \<and> int64 1 \<and> 1 \<in> set (map uo_id (users_one bob_without_profile))
   \<and> Some 1 \<notin> set (map p_user_id (profiles bob_without_profile))
   \<and> update_user bob_without_profile 1 bob = (bob_without_profile, Inl AttributeError)"
proof -
  have a: "int64 5 \<and> 5 \<notin> set (map uo_id (users_one one_bob))"
    by (simp add: one_bob_def int64_def)
  have b: "int64 1 \<and> Some 1 \<notin> set (map p_user_id (profiles bob_without_profile))"
    by (simp add: bob_without_profile_def int64_def)
  have c: "1 \<in> set (map uo_id (users_one bob_without_profile))"
    by (simp add: bob_without_profile_def)
  from update_user_unguarded [of 5 one_bob bob] a
  have "update_user one_bob 5 bob = (one_bob, Inl AttributeError)" by blast
  moreover from update_user_unguarded [of 1 bob_without_profile bob] b
  have "update_user bob_without_profile 1 bob = (bob_without_profile, Inl AttributeError)"
    by blast
  ultimately show ?thesis using a b c by simp
qed

text \<open>
  A missing user does not always end in the attribute fault: for the id \<open>2^63\<close> the
  first query raises.
\<close>

theorem update_user_overflow:
  "9223372036854775808 \<notin> set (map uo_id (users_one one_bob))
   \<and> update_user one_bob 9223372036854775808 bob = (one_bob, Inl OverflowError)
   \<and> update_user one_bob 9223372036854775808 bob \<noteq> (one_bob, Inl AttributeError)"
  by (simp add: update_user_def query_user_one_def first_where_def one_bob_def int64_def)

text \<open>
  Under the declared constraints of table \<^verbatim>\<open>profiles\<close> the profile that
  \<open>delete_user_one\<close> de-associates is the one whose \<open>user_id\<close> is the deleted id.
\<close>

lemma profile_key_inj: "profile_constraints s \<Longrightarrow> inj_on p_id (set (profiles s))"
  by (simp add: profile_constraints_def distinct_map)

lemma profile_user_id_inj:
  assumes "profile_constraints s"
  shows "inj_on p_user_id {p \<in> set (profiles s). p_user_id p \<noteq> None}"
proof -
  from assms have "distinct (map p_user_id (filter (\<lambda>p. p_user_id p \<noteq> None) (profiles s)))"
    by (simp add: profile_constraints_def filter_map comp_def)
  then have "inj_on p_user_id (set (filter (\<lambda>p. p_user_id p \<noteq> None) (profiles s)))"
    by (simp add: distinct_map)
  then show ?thesis by simp
qed

lemma detach_exact:
  assumes "profile_constraints s"
  shows "(case find (\<lambda>p. p_user_id p = Some uid) (profiles s) of
            None \<Rightarrow> profiles s
          | Some q \<Rightarrow> map (\<lambda>p. if p_id p = p_id q then p\<lparr>p_user_id := None\<rparr> else p) (profiles s))
         = map (\<lambda>p. if p_user_id p = Some uid then p\<lparr>p_user_id := None\<rparr> else p) (profiles s)"
proof (cases "find (\<lambda>p. p_user_id p = Some uid) (profiles s)")
  case None
  then have "\<forall>p\<in>set (profiles s). p_user_id p \<noteq> Some uid"
    by (simp add: find_None_iff)
  then have "map (\<lambda>p. if p_user_id p = Some uid then p\<lparr>p_user_id := None\<rparr> else p) (profiles s)
      = profiles s"
    by (intro map_idI) simp
  with None show ?thesis by simp
next
  case (Some q)
  then have q: "p_user_id q = Some uid" "q \<in> set (profiles s)"
    using find_key by fastforce+
  have "\<forall>p\<in>set (profiles s). (p_id p = p_id q) = (p_user_id p = Some uid)"
  proof
    fix p
    assume p: "p \<in> set (profiles s)"
    show "(p_id p = p_id q) = (p_user_id p = Some uid)"
    proof
      assume "p_id p = p_id q"
      with p q profile_key_inj [OF assms] have "p = q" by (auto dest: inj_onD)
      with q show "p_user_id p = Some uid" by simp
    next
      assume "p_user_id p = Some uid"
      with p q have "p \<in> {p \<in> set (profiles s). p_user_id p \<noteq> None}"
        and "q \<in> {p \<in> set (profiles s). p_user_id p \<noteq> None}"
        and "p_user_id p = p_user_id q" by simp_all
      with profile_user_id_inj [OF assms] have "p = q" by (meson inj_onD)
      then show "p_id p = p_id q" by simp
    qed
  qed
  then have "map (\<lambda>p. if p_id p = p_id q then p\<lparr>p_user_id := None\<rparr> else p) (profiles s)
      = map (\<lambda>p. if p_user_id p = Some uid then p\<lparr>p_user_id := None\<rparr> else p) (profiles s)"
    by (intro map_cong) simp_all
  with Some show ?thesis by simp
qed

lemma detach_keeps_columns:
  "map p_id (case find (\<lambda>p. p_user_id p = Some uid) (profiles s) of
            None \<Rightarrow> profiles s
          | Some q \<Rightarrow> map (\<lambda>p. if p_id p = p_id q then p\<lparr>p_user_id := None\<rparr> else p) (profiles s))
     = map p_id (profiles s)
   \<and> map p_bio (case find (\<lambda>p. p_user_id p = Some uid) (profiles s) of
            None \<Rightarrow> profiles s
          | Some q \<Rightarrow> map (\<lambda>p. if p_id p = p_id q then p\<lparr>p_user_id := None\<rparr> else p) (profiles s))
     = map p_bio (profiles s)"
  by (cases "find (\<lambda>p. p_user_id p = Some uid) (profiles s)")
     (simp_all add: comp_def if_distrib cong: if_cong)

text \<open>
  C7, as amended. When no user has the id, \<open>delete_user_one\<close> leaves the database as it
  was and raises the 404 \<open>User not found\<close> if the id fits 64 bits, and the driver's
  \<open>OverflowError\<close> if it does not. When a user has the id, the handler deletes the user
  row and no profile row: the profile table keeps its rows, with the same \<open>id\<close> and
  \<open>bio\<close>, in the same order. Under the constraints of the table, the profile that named
  the deleted user has its \<open>user_id\<close> set to null and every other profile row is
  unchanged.
\<close>

theorem delete_user_one_detaches_profile:
  "(uid \<notin> set (map uo_id (users_one s)) \<and> int64 uid \<longrightarrow>
      delete_user_one s uid = (s, Inl (HTTPException 404 ''User not found'')))
   \<and> (uid \<notin> set (map uo_id (users_one s)) \<and> \<not> int64 uid \<longrightarrow>
      delete_user_one s uid = (s, Inl OverflowError))
   \<and> (uid \<in> set (map uo_id (users_one s)) \<longrightarrow>
      (\<exists>s'. delete_user_one s uid = (s', Inr ''User has been deleted'')
         \<and> users_one s' = filter (\<lambda>u. uo_id u \<noteq> uid) (users_one s)
         \<and> map p_id (profiles s') = map p_id (profiles s)
         \<and> map p_bio (profiles s') = map p_bio (profiles s)
         \<and> (profile_constraints s \<longrightarrow>
              profiles s' =
                map (\<lambda>p. if p_user_id p = Some uid then p\<lparr>p_user_id := None\<rparr> else p)
                  (profiles s))))"
proof (intro conjI impI)
  assume "uid \<notin> set (map uo_id (users_one s)) \<and> int64 uid"
  then show "delete_user_one s uid = (s, Inl (HTTPException 404 ''User not found''))"
    by (simp add: delete_user_one_def query_user_one_absent)
next
  assume "uid \<notin> set (map uo_id (users_one s)) \<and> \<not> int64 uid"
  then show "delete_user_one s uid = (s, Inl OverflowError)"
    by (simp add: delete_user_one_def query_user_one_absent)
next
  assume "uid \<in> set (map uo_id (users_one s))"
  then obtain user where user: "query_user_one s uid = Inr (Some user)"
    and key: "uo_id user = uid"
    using query_user_one_present by blast
  define s' where "s' = fst (delete_user_one s uid)"
  have res: "delete_user_one s uid = (s', Inr ''User has been deleted'')"
    using user by (simp add: s'_def delete_user_one_def)
  have users': "users_one s' = filter (\<lambda>u. uo_id u \<noteq> uid) (users_one s)"
    using user key by (simp add: s'_def delete_user_one_def)
  have profiles': "profiles s' =
      (case find (\<lambda>p. p_user_id p = Some uid) (profiles s) of
         None \<Rightarrow> profiles s
       | Some q \<Rightarrow> map (\<lambda>p. if p_id p = p_id q then p\<lparr>p_user_id := None\<rparr> else p) (profiles s))"
    using user key by (simp add: s'_def delete_user_one_def User_profile_def)
  have cols: "map p_id (profiles s') = map p_id (profiles s)"
    "map p_bio (profiles s') = map p_bio (profiles s)"
    using detach_keeps_columns [where s = s and uid = uid] by (simp_all add: profiles')
  have exact: "profile_constraints s \<longrightarrow>
      profiles s' =
        map (\<lambda>p. if p_user_id p = Some uid then p\<lparr>p_user_id := None\<rparr> else p) (profiles s)"
    using detach_exact [of s uid] by (simp add: profiles')
  from res users' cols exact
  show "\<exists>s'. delete_user_one s uid = (s', Inr ''User has been deleted'')
         \<and> users_one s' = filter (\<lambda>u. uo_id u \<noteq> uid) (users_one s)
         \<and> map p_id (profiles s') = map p_id (profiles s)
         \<and> map p_bio (profiles s') = map p_bio (profiles s)
         \<and> (profile_constraints s \<longrightarrow>
              profiles s' =
                map (\<lambda>p. if p_user_id p = Some uid then p\<lparr>p_user_id := None\<rparr> else p)
                  (profiles s))"
    by blast
qed

lemma one_bob_constraints: "profile_constraints one_bob"
  by (simp add: profile_constraints_def one_bob_def)

theorem delete_user_one_detaches_profile_witness:
  "4 \<notin> set (map uo_id (users_one one_bob)) \<and> int64 4
   \<and> delete_user_one one_bob 4 = (one_bob, Inl (HTTPException 404 ''User not found''))
   \<and> 9223372036854775808 \<notin> set (map uo_id (users_one one_bob))
   \<and> \<not> int64 9223372036854775808
   \<and> delete_user_one one_bob 9223372036854775808 = (one_bob, Inl OverflowError)
   \<and> 1 \<in> set (map uo_id (users_one one_bob))
   \<and> profile_constraints one_bob
   \<and> delete_user_one one_bob 1 =
       (\<lparr>users_one = [], profiles = [\<lparr>p_id = 1, p_bio = Some ''hi'', p_user_id = None\<rparr>]\<rparr>,
        Inr ''User has been deleted'')"
proof -
  have absent: "4 \<notin> set (map uo_id (users_one one_bob)) \<and> int64 4"
    by (simp add: one_bob_def int64_def)
  have beyond: "9223372036854775808 \<notin> set (map uo_id (users_one one_bob))
      \<and> \<not> int64 9223372036854775808"
    by (simp add: one_bob_def int64_def)
  have present: "1 \<in> set (map uo_id (users_one one_bob))"
    by (simp add: one_bob_def)
  from delete_user_one_detaches_profile [of 4 one_bob] absent
  have refused: "delete_user_one one_bob 4 = (one_bob, Inl (HTTPException 404 ''User not found''))"
    by blast
  from delete_user_one_detaches_profile [of 9223372036854775808 one_bob] beyond
  have overflow: "delete_user_one one_bob 9223372036854775808 = (one_bob, Inl OverflowError)"
    by blast
  from delete_user_one_detaches_profile [of 1 one_bob] present one_bob_constraints
  obtain s' where del: "delete_user_one one_bob 1 = (s', Inr ''User has been deleted'')"
    and us: "users_one s' = filter (\<lambda>u. uo_id u \<noteq> 1) (users_one one_bob)"
    and ps: "profiles s' =
       map (\<lambda>p. if p_user_id p = Some 1 then p\<lparr>p_user_id := None\<rparr> else p) (profiles one_bob)"
    by blast
  from us ps have "s' = \<lparr>users_one = [], profiles = [\<lparr>p_id = 1, p_bio = Some ''hi'', p_user_id = None\<rparr>]\<rparr>"
    by (simp add: one_bob_def)
  with del absent beyond present refused overflow one_bob_constraints show ?thesis by simp
qed

text \<open>
  The profile row of a deleted user does not stay as it was: in \<open>one_bob\<close> the profile
  names user 1 before the delete and names no user after it.
\<close>

theorem delete_user_one_changes_profile:
  "snd (delete_user_one one_bob 1) = Inr ''User has been deleted''
   \<and> profiles one_bob = [\<lparr>p_id = 1, p_bio = Some ''hi'', p_user_id = Some 1\<rparr>]
   \<and> profiles (fst (delete_user_one one_bob 1)) =
       [\<lparr>p_id = 1, p_bio = Some ''hi'', p_user_id = None\<rparr>]
   \<and> profiles (fst (delete_user_one one_bob 1)) \<noteq> profiles one_bob"
  by (simp add: delete_user_one_def one_bob_def query_user_one_def first_where_def
                User_profile_def)

text \<open>
  Both constraints of the profile table, and that profiles name stored users only, hold of
  the empty database and are kept by every handler of \<^verbatim>\<open>one_to_one.py\<close> that writes.
\<close>

lemma profiles_reference_users_empty:
  "profiles_reference_users empty_one \<and> profile_constraints empty_one"
  by (simp add: profiles_reference_users_def profile_constraints_def empty_one_def)

lemma create_user_one_keeps_references:
  assumes "profiles_reference_users s"
  shows "profiles_reference_users (fst (create_user_one s user))"
  using assms create_user_one_result [OF assms, of user]
  by (auto simp: profiles_reference_users_def split: option.splits)

lemma add_profile_keeps_constraints:
  assumes "profile_constraints s" and "add_profile s b i = Inr (s', p)"
  shows "profile_constraints s'"
proof -
  from assms(2) have free: "Some i \<notin> set (map p_user_id (profiles s))"
    and s': "profiles s' = profiles s
        @ [\<lparr>p_id = next_id (map p_id (profiles s)), p_bio = Some b, p_user_id = Some i\<rparr>]"
    by (auto simp: add_profile_def Let_def split: if_splits)
  have "next_id (map p_id (profiles s)) \<notin> set (map p_id (profiles s))"
    by (rule next_id_fresh)
  with assms(1) free s' show ?thesis
    by (simp add: profile_constraints_def)
qed

lemma create_user_one_keeps_constraints:
  assumes "profile_constraints s"
  shows "profile_constraints (fst (create_user_one s user))"
proof (cases "add_profile (s\<lparr>users_one := users_one s
          @ [\<lparr>uo_id = next_id (map uo_id (users_one s)), uo_name = uc_name user\<rparr>]\<rparr>)
        (uc_bio user) (next_id (map uo_id (users_one s)))")
  case (Inl e)
  with assms show ?thesis
    by (simp add: create_user_one_def Let_def profile_constraints_def)
next
  case (Inr sp)
  obtain s2 p where sp: "sp = (s2, p)" by (cases sp)
  from assms have "profile_constraints (s\<lparr>users_one := users_one s
          @ [\<lparr>uo_id = next_id (map uo_id (users_one s)), uo_name = uc_name user\<rparr>]\<rparr>)"
    by (simp add: profile_constraints_def)
  with Inr sp have "profile_constraints s2"
    using add_profile_keeps_constraints by blast
  with Inr sp show ?thesis
    by (simp add: create_user_one_def Let_def)
qed

lemma create_profile_keeps_invariant:
  assumes "profiles_reference_users s" and "profile_constraints s"
  shows "profiles_reference_users (fst (create_profile s payload))
       \<and> profile_constraints (fst (create_profile s payload))"
proof (cases "pc_user_id payload \<in> set (map uo_id (users_one s))")
  case False
  with assms show ?thesis by (simp add: create_profile_def query_user_one_absent)
next
  case known: True
  then obtain user where user: "query_user_one s (pc_user_id payload) = Inr (Some user)"
    using query_user_one_present by blast
  show ?thesis
  proof (cases "add_profile s (pc_bio payload) (pc_user_id payload)")
    case (Inl e)
    with user assms show ?thesis by (simp add: create_profile_def)
  next
    case (Inr sp)
    obtain s' p where sp: "sp = (s', p)" by (cases sp)
    with Inr assms(2) have c: "profile_constraints s'"
      using add_profile_keeps_constraints by blast
    from Inr sp have "users_one s' = users_one s"
      and "profiles s' = profiles s
        @ [\<lparr>p_id = next_id (map p_id (profiles s)), p_bio = Some (pc_bio payload),
            p_user_id = Some (pc_user_id payload)\<rparr>]"
      by (auto simp: add_profile_def Let_def split: if_splits)
    with assms(1) known have "profiles_reference_users s'"
      by (auto simp: profiles_reference_users_def split: option.splits)
    with c user Inr sp show ?thesis by (simp add: create_profile_def)
  qed
qed

lemma rename_keeps_key:
  "uo_id \<circ> (\<lambda>u. if uo_id u = i then u\<lparr>uo_name := n\<rparr> else u) = uo_id"
  by (rule ext) simp

lemma rewrite_bio_keeps_keys:
  "p_id \<circ> (\<lambda>p. if p_id p = k then p\<lparr>p_bio := b\<rparr> else p) = p_id"
  "p_user_id \<circ> (\<lambda>p. if p_id p = k then p\<lparr>p_bio := b\<rparr> else p) = p_user_id"
  by (rule ext, simp)+

lemma references_by_columns:
  "profiles_reference_users s =
     (\<forall>v\<in>set (map p_user_id (profiles s)).
        case v of None \<Rightarrow> True | Some i \<Rightarrow> i \<in> set (map uo_id (users_one s)))"
  by (simp add: profiles_reference_users_def)

lemma update_user_keeps_invariant:
  assumes "profiles_reference_users s" and "profile_constraints s"
  shows "profiles_reference_users (fst (update_user s uid payload))
       \<and> profile_constraints (fst (update_user s uid payload))"
proof -
  consider (stays) "fst (update_user s uid payload) = s"
    | (writes) user profile where "query_user_one s uid = Inr (Some user)"
        and "query_profile_of s uid = Inr (Some profile)"
  proof (cases "query_user_one s uid")
    case (Inl e)
    then have "fst (update_user s uid payload) = s" by (simp add: update_user_def)
    then show ?thesis by (rule stays)
  next
    case found: (Inr found)
    show ?thesis
    proof (cases found)
      case None
      with found have "fst (update_user s uid payload) = s" by (simp add: update_user_def)
      then show ?thesis by (rule stays)
    next
      case user: (Some user)
      show ?thesis
      proof (cases "query_profile_of s uid")
        case (Inl e)
        with found user have "fst (update_user s uid payload) = s"
          by (simp add: update_user_def)
        then show ?thesis by (rule stays)
      next
        case (Inr p)
        show ?thesis
        proof (cases p)
          case None
          with found user Inr have "fst (update_user s uid payload) = s"
            by (simp add: update_user_def)
          then show ?thesis by (rule stays)
        next
          case (Some profile)
          with found user Inr show ?thesis by (intro writes) simp_all
        qed
      qed
    qed
  qed
  then show ?thesis
  proof cases
    case stays
    with assms show ?thesis by simp
  next
    case writes
    define s' where "s' = fst (update_user s uid payload)"
    have "map uo_id (users_one s') = map uo_id (users_one s)"
      and "map p_id (profiles s') = map p_id (profiles s)"
      and "map p_user_id (profiles s') = map p_user_id (profiles s)"
      using writes
      by (simp_all add: s'_def update_user_def rename_keeps_key rewrite_bio_keeps_keys)
    then have "profiles_reference_users s' = profiles_reference_users s"
      and "profile_constraints s' = profile_constraints s"
      by (simp_all only: references_by_columns profile_constraints_def)
    with assms show ?thesis by (simp add: s'_def)
  qed
qed

lemma delete_user_one_keeps_invariant:
  assumes "profiles_reference_users s" and "profile_constraints s"
  shows "profiles_reference_users (fst (delete_user_one s uid))
       \<and> profile_constraints (fst (delete_user_one s uid))"
proof (cases "uid \<in> set (map uo_id (users_one s))")
  case False
  with assms show ?thesis by (simp add: delete_user_one_def query_user_one_absent)
next
  case True
  then obtain user where Some: "query_user_one s uid = Inr (Some user)"
    and key: "uo_id user = uid"
    using query_user_one_present by blast
  let ?detach = "\<lambda>p. if p_user_id p = Some uid then p\<lparr>p_user_id := None\<rparr> else p"
  have users': "users_one (fst (delete_user_one s uid)) = filter (\<lambda>u. uo_id u \<noteq> uid) (users_one s)"
    using Some key by (simp add: delete_user_one_def)
  have profiles': "profiles (fst (delete_user_one s uid)) = map ?detach (profiles s)"
    using Some key detach_exact [OF assms(2), of uid]
    by (simp add: delete_user_one_def User_profile_def)
  have refs: "profiles_reference_users (fst (delete_user_one s uid))"
    unfolding profiles_reference_users_def users' profiles'
  proof
    fix p'
    assume "p' \<in> set (map ?detach (profiles s))"
    then obtain p where p: "p \<in> set (profiles s)" and p': "p' = ?detach p" by auto
    show "case p_user_id p' of None \<Rightarrow> True
          | Some i \<Rightarrow> i \<in> set (map uo_id (filter (\<lambda>u. uo_id u \<noteq> uid) (users_one s)))"
    proof (cases "p_user_id p = Some uid")
      case True
      with p' show ?thesis by simp
    next
      case False
      with assms(1) p p' show ?thesis
        by (auto simp: profiles_reference_users_def split: option.splits)
    qed
  qed
  have ids: "map p_id (map ?detach (profiles s)) = map p_id (profiles s)"
    by (induction "profiles s") (auto simp: comp_def)
  have uids: "filter (\<lambda>v. v \<noteq> None) (map p_user_id (map ?detach ps))
      = filter (\<lambda>v. v \<noteq> Some uid) (filter (\<lambda>v. v \<noteq> None) (map p_user_id ps))" for ps
    by (induction ps) auto
  from assms(2) have "distinct (map p_id (profiles s))"
    and "distinct (filter (\<lambda>v. v \<noteq> None) (map p_user_id (profiles s)))"
    by (simp_all only: profile_constraints_def)
  then have "distinct (map p_id (map ?detach (profiles s)))"
    and "distinct (filter (\<lambda>v. v \<noteq> None) (map p_user_id (map ?detach (profiles s))))"
    by (simp_all only: ids uids distinct_filter)
  then have "profile_constraints (fst (delete_user_one s uid))"
    by (simp only: profile_constraints_def profiles')
  with refs show ?thesis by simp
qed

lemma reachable_one_invariant:
  "reachable_one s \<Longrightarrow> profiles_reference_users s \<and> profile_constraints s"
proof (induction rule: reachable_one.induct)
  case start_one
  show ?case by (rule profiles_reference_users_empty)
next
  case (after_create_user_one s user)
  then show ?case
    by (simp add: create_user_one_keeps_references create_user_one_keeps_constraints)
next
  case (after_update_user s user_id payload)
  then show ?case by (simp add: update_user_keeps_invariant)
next
  case (after_delete_user_one s user_id)
  then show ?case by (simp add: delete_user_one_keeps_invariant)
next
  case (after_create_profile s profile)
  then show ?case by (simp add: create_profile_keeps_invariant)
qed




subsection \<open>Queries for all rows\<close>

text \<open>
  C10. On a database with no order, \<open>read_order_list\<close> returns the empty list; on one
  with no profile, \<open>read_all_profile\<close> returns the empty list; so both do on the empty
  database. Neither handler raises an \<open>HTTPException\<close> on any database: the branch
  after the query tests for \<^verbatim>\<open>None\<close>, and \<open>all_rows\<close> is never \<^verbatim>\<open>None\<close>.
\<close>

theorem list_all_never_not_found:
  "read_order_list empty_many = (empty_many, Inr [])
   \<and> read_all_profile empty_one = (empty_one, Inr [])
   \<and> (\<forall>s. orders s = [] \<longrightarrow> read_order_list s = (s, Inr []))
   \<and> (\<forall>s. profiles s = [] \<longrightarrow> read_all_profile s = (s, Inr []))
   \<and> (\<forall>s::store_many. all_rows (orders s) \<noteq> None)
   \<and> (\<forall>s::store_one. all_rows (profiles s) \<noteq> None)
   \<and> (\<forall>s c d. snd (read_order_list s) \<noteq> Inl (HTTPException c d))
   \<and> (\<forall>s c d. snd (read_all_profile s) \<noteq> Inl (HTTPException c d))"
proof (intro conjI allI impI)
  show "read_order_list empty_many = (empty_many, Inr [])"
    by (simp add: read_order_list_def all_rows_def empty_many_def)
  show "read_all_profile empty_one = (empty_one, Inr [])"
    by (simp add: read_all_profile_def all_rows_def empty_one_def)
next
  fix s :: store_many
  assume "orders s = []"
  then show "read_order_list s = (s, Inr [])"
    by (simp add: read_order_list_def all_rows_def)
next
  fix s :: store_one
  assume "profiles s = []"
  then show "read_all_profile s = (s, Inr [])"
    by (simp add: read_all_profile_def all_rows_def)
next
  fix s :: store_many
  show "all_rows (orders s) \<noteq> None" by (simp add: all_rows_def)
next
  fix s :: store_one
  show "all_rows (profiles s) \<noteq> None" by (simp add: all_rows_def)
next
  fix s c d
  show "snd (read_order_list s) \<noteq> Inl (HTTPException c d)"
    using attach_usernames_error [of s "orders s" "HTTPException c d"]
    by (auto simp: read_order_list_def all_rows_def)
next
  fix s c d
  show "snd (read_all_profile s) \<noteq> Inl (HTTPException c d)"
    by (simp add: read_all_profile_def all_rows_def)
qed

theorem list_all_never_not_found_witness:
  "orders (shop\<lparr>orders := []\<rparr>) = []
   \<and> read_order_list (shop\<lparr>orders := []\<rparr>) = (shop\<lparr>orders := []\<rparr>, Inr [])
   \<and> profiles bob_without_profile = []
   \<and> read_all_profile bob_without_profile = (bob_without_profile, Inr [])"
proof -
  have a: "orders (shop\<lparr>orders := []\<rparr>) = []" by simp
  have b: "profiles bob_without_profile = []" by (simp add: bob_without_profile_def)
  from list_all_never_not_found a
  have "read_order_list (shop\<lparr>orders := []\<rparr>) = (shop\<lparr>orders := []\<rparr>, Inr [])" by blast
  moreover from list_all_never_not_found b
  have "read_all_profile bob_without_profile = (bob_without_profile, Inr [])" by blast
  ultimately show ?thesis using a b by simp
qed

end
